theory Spec2Isabelle
  imports Main "HOL-Library.Sublist"
begin

section \<open>Python strings\<close>

text \<open>
  A Python \<^verbatim>\<open>str\<close> is a sequence of Unicode code points: \<^verbatim>\<open>len\<close> and slicing count
  code points, and \<^verbatim>\<open>strip\<close> and \<^verbatim>\<open>split\<close> use the Unicode notion of whitespace.
  A string is therefore a list of code points; the literals of the source, which are all
  ASCII, are written with \<open>ustr\<close>.
\<close>

type_synonym codepoint = nat
type_synonym pystr = "codepoint list"

definition ustr :: "string \<Rightarrow> pystr" where
  "ustr s = map of_char s"

definition NL :: codepoint where
  "NL = 10"

definition APOS :: codepoint where
  "APOS = 39"

text \<open>
  The code points for which \<^verbatim>\<open>str.isspace\<close> holds; they are the ones that
  \<^verbatim>\<open>str.strip()\<close> and \<^verbatim>\<open>str.split()\<close> without arguments treat as whitespace.
\<close>

definition is_space :: "codepoint \<Rightarrow> bool" where
  "is_space c \<longleftrightarrow>
     (9 \<le> c \<and> c \<le> 13) \<or> (28 \<le> c \<and> c \<le> 32) \<or> c = 133 \<or> c = 160 \<or> c = 5760 \<or>
     (8192 \<le> c \<and> c \<le> 8202) \<or> c = 8232 \<or> c = 8233 \<or> c = 8239 \<or> c = 8287 \<or>
     c = 12288"

text \<open>\<^verbatim>\<open>s.strip()\<close>: whitespace removed at both ends.\<close>

definition strip :: "pystr \<Rightarrow> pystr" where
  "strip s = rev (dropWhile is_space (rev (dropWhile is_space s)))"

text \<open>
  \<^verbatim>\<open>s.split(sep)\<close> for a non-empty separator: the text is scanned from the left, every
  occurrence of the separator found ends the current piece and the scan goes on behind it.
  \<open>cur\<close> holds the current piece, reversed. Python raises \<^verbatim>\<open>ValueError\<close> on an empty
  separator; both separators of the program are non-empty literals.
\<close>

function split_from :: "'a list \<Rightarrow> 'a list \<Rightarrow> 'a list \<Rightarrow> 'a list list" where
  "split_from sep cur [] = [rev cur]"
| "split_from sep cur (x # xs) =
     (if sep \<noteq> [] \<and> prefix sep (x # xs)
      then rev cur # split_from sep [] (drop (length sep) (x # xs))
      else split_from sep (x # cur) xs)"
  by pat_completeness auto
termination
  by (relation "measure (\<lambda>(sep, cur, s). length s)") auto

definition split_sep :: "'a list \<Rightarrow> 'a list \<Rightarrow> 'a list list" where
  "split_sep s sep = split_from sep [] s"

text \<open>
  \<^verbatim>\<open>s.split()\<close> without arguments: the maximal runs of non-whitespace code points.
\<close>

fun words_from :: "pystr \<Rightarrow> pystr \<Rightarrow> pystr list" where
  "words_from cur [] = (if cur = [] then [] else [rev cur])"
| "words_from cur (c # cs) =
     (if is_space c
      then (if cur = [] then words_from [] cs else rev cur # words_from [] cs)
      else words_from (c # cur) cs)"

definition split_ws :: "pystr \<Rightarrow> pystr list" where
  "split_ws s = words_from [] s"

text \<open>\<^verbatim>\<open>s.endswith(suf)\<close>.\<close>

definition endswith :: "pystr \<Rightarrow> pystr \<Rightarrow> bool" where
  "endswith s suf \<longleftrightarrow> length suf \<le> length s \<and> drop (length s - length suf) s = suf"

section \<open>Values, exceptions and the environment of the process\<close>

text \<open>
  The values \<^verbatim>\<open>json.loads\<close> builds. Python floats are left abstract: the program never
  computes with them. An object is the list of its items.
\<close>

typedecl pyfloat

datatype json =
    JNull
  | JBool bool
  | JInt int
  | JFloat pyfloat
  | JStr pystr
  | JArr "json list"
  | JObj "(pystr \<times> json) list"

text \<open>
  The exceptions (instances of \<^verbatim>\<open>Exception\<close>) that the handlers of the program tell
  apart, each with the text \<^verbatim>\<open>str(e)\<close> gives. \<^verbatim>\<open>SystemExit\<close>, which \<^verbatim>\<open>sys.exit\<close>
  raises and no handler of the program catches, is modelled as control flow below.
\<close>

datatype exn =
    OutOfMemoryError pystr
  | JSONDecodeError pystr
  | TypeError pystr
  | OtherException pystr

fun str_exn :: "exn \<Rightarrow> pystr" where
  "str_exn (OutOfMemoryError m) = m"
| "str_exn (JSONDecodeError m) = m"
| "str_exn (TypeError m) = m"
| "str_exn (OtherException m) = m"

datatype device = Cuda | Cpu

datatype dtype = Float16 | Float32

text \<open>
  What the program obtains from outside: the process environment, the file system, the
  libraries (transformers, torch, json) and standard input. A library call either returns
  or raises. Token tensors are lists of token identifiers. \<open>interp_message\<close> is the text
  of the interpreter's own \<^verbatim>\<open>TypeError\<close> for an operand, \<open>py_str\<close> is \<^verbatim>\<open>str(v)\<close>
  for a value that is not a string.
\<close>

record env =
  getenv_MODEL_PATH :: "pystr option"
  path_exists :: "pystr \<Rightarrow> bool"
  cuda_is_available :: bool
  tokenizer_from_pretrained :: "pystr \<Rightarrow> exn option"
  model_from_pretrained :: "pystr \<Rightarrow> dtype \<Rightarrow> device \<Rightarrow> exn option"
  model_eval :: "exn option"
  tokenize :: "pystr \<Rightarrow> device \<Rightarrow> exn + nat list"
  model_generate :: "nat list \<Rightarrow> exn + nat list"
  tokenizer_decode :: "nat list \<Rightarrow> exn + pystr"
  stdin_read :: "exn + pystr"
  json_loads :: "pystr \<Rightarrow> exn + json"
  interp_message :: "json \<Rightarrow> pystr"
  py_str :: "json \<Rightarrow> pystr"
  empty_cache :: "exn option"

text \<open>
  The dictionaries the program hands to \<^verbatim>\<open>json.dumps\<close>: their items in insertion order.
\<close>

datatype pyval = PStr pystr | PBool bool

type_synonym pydict = "(pystr \<times> pyval) list"

definition keys :: "pydict \<Rightarrow> pystr list" where
  "keys d = map fst d"

section \<open>The responder\<close>

definition SYSTEM_PROMPT :: pystr where
  "SYSTEM_PROMPT = [NL] @
     ustr ''You are Krishna, an AI model designed to assist agents in an Indian banking call center process. Provide a helpful and generic response to every question asked by the agent.''
     @ [NL]"

definition format_message :: "env \<Rightarrow> json \<Rightarrow> pystr" where
  "format_message e v = (case v of JStr s \<Rightarrow> s | _ \<Rightarrow> py_str e v)"

definition prompt :: "env \<Rightarrow> json \<Rightarrow> pystr" where
  "prompt e user_message =
     SYSTEM_PROMPT @ [NL] @ ustr ''Agent: '' @ format_message e user_message
       @ [NL] @ ustr ''Assistant:''"

text \<open>
  Lines 88 and 89: the text behind the last newline followed by \<^verbatim>\<open>Assistant:\<close>, stripped,
  split into lines; the first line, stripped, or the empty string when there is no line.
\<close>

definition LABEL :: pystr where
  "LABEL = NL # ustr ''Assistant:''"

definition response_lines :: "pystr \<Rightarrow> pystr list" where
  "response_lines raw_output = split_sep (strip (last (split_sep raw_output LABEL))) [NL]"

definition candidate :: "pystr \<Rightarrow> pystr" where
  "candidate raw_output =
     (case response_lines raw_output of [] \<Rightarrow> [] | l # _ \<Rightarrow> strip l)"

definition FALLBACK :: pystr where
  "FALLBACK = ustr ''I'm sorry, Krishna is here to help. Please provide more details so I can assist you better.''"

definition APOLOGY :: pystr where
  "APOLOGY = ustr ''I'm sorry, Krishna encountered an error. Please try again.''"

text \<open>Lines 91 to 96.\<close>

definition shorten :: "pystr \<Rightarrow> pystr" where
  "shorten response =
     (if response = [] then FALLBACK
      else if length (split_ws response) > 50 then take 200 response @ ustr ''...''
      else response)"

definition terminate :: "pystr \<Rightarrow> pystr" where
  "terminate response =
     (if \<not> endswith response (ustr ''.'') then response @ ustr ''.'' else response)"

definition response_dict :: "pystr \<Rightarrow> bool \<Rightarrow> pydict" where
  "response_dict response escalate =
     [(ustr ''response'', PStr response), (ustr ''escalate'', PBool escalate)]"

text \<open>
  The three library calls of the \<^verbatim>\<open>try\<close> block, in order; the first that raises ends it.
\<close>

definition decoded_output :: "env \<Rightarrow> pystr \<Rightarrow> exn + pystr" where
  "decoded_output e p =
     (case tokenize e p (if cuda_is_available e then Cuda else Cpu) of
        Inl ex \<Rightarrow> Inl ex
      | Inr inputs \<Rightarrow>
          (case model_generate e inputs of
             Inl ex \<Rightarrow> Inl ex
           | Inr outputs \<Rightarrow> tokenizer_decode e outputs))"

definition generate_response :: "env \<Rightarrow> json \<Rightarrow> pydict" where
  "generate_response e user_message =
     (case decoded_output e (prompt e user_message) of
        Inr raw_output \<Rightarrow>
          response_dict (terminate (shorten (candidate raw_output))) False
      | Inl (OutOfMemoryError m) \<Rightarrow> response_dict APOLOGY True
      | Inl ex \<Rightarrow> response_dict APOLOGY True)"

section \<open>The loader, the entry point and the cleanup\<close>

text \<open>
  What an observer of the process sees, in order: objects printed on standard output,
  attempts to load, calls of the responder, and the steps of the cleanup.
\<close>

datatype event =
    Printed pydict
  | LoadTokenizer
  | LoadModel
  | GenerateResponse
  | DelModel
  | DelTokenizer
  | EmptyCache

text \<open>How a block of statements ends: it runs to its end, raises, or calls \<^verbatim>\<open>sys.exit\<close>.\<close>

datatype ending = Completed | Raised exn | Exited int

definition error_dict :: "pystr \<Rightarrow> pydict" where
  "error_dict msg = [(ustr ''error'', PStr msg)]"

text \<open>Lines 31 to 43, the body of the \<^verbatim>\<open>try\<close> statement of the loader.\<close>

definition load_try :: "env \<Rightarrow> pystr \<Rightarrow> event list \<times> ending" where
  "load_try e MODEL_PATH =
     (case tokenizer_from_pretrained e MODEL_PATH of
        Some ex \<Rightarrow> ([LoadTokenizer], Raised ex)
      | None \<Rightarrow>
          (case model_from_pretrained e MODEL_PATH
                  (if cuda_is_available e then Float16 else Float32)
                  (if cuda_is_available e then Cuda else Cpu) of
             Some ex \<Rightarrow> ([LoadTokenizer, LoadModel], Raised ex)
           | None \<Rightarrow>
               (case model_eval e of
                  Some ex \<Rightarrow> ([LoadTokenizer, LoadModel], Raised ex)
                | None \<Rightarrow> ([LoadTokenizer, LoadModel], Completed))))"

text \<open>Lines 17 to 46. \<open>Completed\<close> means that tokenizer and model are loaded.\<close>

definition loader :: "env \<Rightarrow> event list \<times> ending" where
  "loader e =
     (case getenv_MODEL_PATH e of
        None \<Rightarrow>
          ([Printed (error_dict (ustr ''MODEL_PATH not found in .env file.''))], Exited 1)
      | Some MODEL_PATH \<Rightarrow>
          if MODEL_PATH = []
          then ([Printed (error_dict (ustr ''MODEL_PATH not found in .env file.''))], Exited 1)
          else if \<not> path_exists e MODEL_PATH
          then ([Printed (error_dict (ustr ''Model path does not exist: '' @ MODEL_PATH
                  @ ustr ''. Please verify the path and ensure the model files are present.''))],
                Exited 1)
          else
            (case load_try e MODEL_PATH of
               (tr, Raised ex) \<Rightarrow>
                 (tr @ [Printed (error_dict (ustr ''Failed to load model: '' @ str_exn ex))],
                  Exited 1)
             | (tr, r) \<Rightarrow> (tr, r)))"

text \<open>
  \<^verbatim>\<open>"message" in data\<close> and \<^verbatim>\<open>data["message"]\<close> for each kind of value: key membership
  and lookup in an object, substring test in a string, element test in an array (a string
  equals no value of another type), and a \<^verbatim>\<open>TypeError\<close> otherwise.
\<close>

fun equals_str :: "json \<Rightarrow> pystr \<Rightarrow> bool" where
  "equals_str (JStr s) t = (s = t)"
| "equals_str v t = False"

definition contains_message :: "env \<Rightarrow> json \<Rightarrow> exn + bool" where
  "contains_message e data =
     (case data of
        JObj items \<Rightarrow> Inr (ustr ''message'' \<in> set (map fst items))
      | JStr s \<Rightarrow> Inr (sublist (ustr ''message'') s)
      | JArr xs \<Rightarrow> Inr (list_ex (\<lambda>x. equals_str x (ustr ''message'')) xs)
      | _ \<Rightarrow> Inl (TypeError (interp_message e data)))"

definition get_message :: "env \<Rightarrow> json \<Rightarrow> exn + json" where
  "get_message e data =
     (case data of
        JObj items \<Rightarrow>
          (case map_of items (ustr ''message'') of
             Some v \<Rightarrow> Inr v
           | None \<Rightarrow> Inl (OtherException (APOS # ustr ''message'' @ [APOS])))
      | _ \<Rightarrow> Inl (TypeError (interp_message e data)))"

text \<open>Lines 115 to 128, the body of the \<^verbatim>\<open>try\<close> statement of the entry point.\<close>

definition main_try :: "env \<Rightarrow> event list \<times> ending" where
  "main_try e =
     (case stdin_read e of
        Inl ex \<Rightarrow> ([], Raised ex)
      | Inr s \<Rightarrow>
          (let input_data = strip s in
           if input_data = []
           then ([Printed (error_dict (ustr ''No input data received.''))], Exited 1)
           else
             (case json_loads e input_data of
                Inl ex \<Rightarrow> ([], Raised ex)
              | Inr data \<Rightarrow>
                  (case contains_message e data of
                     Inl ex \<Rightarrow> ([], Raised ex)
                   | Inr False \<Rightarrow>
                       ([Printed (error_dict
                           (ustr ''Input JSON does not contain 'message' key.''))],
                        Exited 1)
                   | Inr True \<Rightarrow>
                       (case get_message e data of
                          Inl ex \<Rightarrow> ([], Raised ex)
                        | Inr user_message \<Rightarrow>
                            ([GenerateResponse, Printed (generate_response e user_message)],
                             Completed))))))"

text \<open>Lines 130 to 135, the two handlers; \<^verbatim>\<open>SystemExit\<close> passes both.\<close>

fun main_except :: "event list \<times> ending \<Rightarrow> event list \<times> ending" where
  "main_except (tr, Raised (JSONDecodeError m)) =
     (tr @ [Printed (error_dict (ustr ''Error parsing input JSON: '' @ m))], Exited 1)"
| "main_except (tr, Raised ex) =
     (tr @ [Printed (error_dict (ustr ''Error processing request: '' @ str_exn ex))], Exited 1)"
| "main_except (tr, r) = (tr, r)"

text \<open>
  Lines 138 to 144. Both names are bound when the block is reached, so only the clearing
  of the cache can raise; the handler discards what it raises.
\<close>

definition cleanup_try :: "env \<Rightarrow> event list \<times> ending" where
  "cleanup_try e =
     (if cuda_is_available e
      then (case empty_cache e of
              Some ex \<Rightarrow> ([DelModel, DelTokenizer, EmptyCache], Raised ex)
            | None \<Rightarrow> ([DelModel, DelTokenizer, EmptyCache], Completed))
      else ([DelModel, DelTokenizer], Completed))"

fun cleanup_except :: "event list \<times> ending \<Rightarrow> event list \<times> ending" where
  "cleanup_except (tr, Raised ex) = (tr, Completed)"
| "cleanup_except (tr, r) = (tr, r)"

definition cleanup :: "env \<Rightarrow> event list \<times> ending" where
  "cleanup e = cleanup_except (cleanup_try e)"

text \<open>
  The \<^verbatim>\<open>try\<close> statement with its \<^verbatim>\<open>finally\<close> clause: the clause runs however the rest
  ended, and when it runs to its end the rest's ending stands.
\<close>

definition main :: "env \<Rightarrow> event list \<times> ending" where
  "main e =
     (case main_except (main_try e) of
        (tr, r) \<Rightarrow>
          (case cleanup e of
             (tr', Completed) \<Rightarrow> (tr @ tr', r)
           | (tr', r') \<Rightarrow> (tr @ tr', r')))"

text \<open>
  The exit status of the process: 0 at the end of the script, else the argument of
  \<^verbatim>\<open>sys.exit\<close>; an exception that reaches the top ends the interpreter with status 1.
\<close>

fun status :: "ending \<Rightarrow> int" where
  "status Completed = 0"
| "status (Exited n) = n"
| "status (Raised ex) = 1"

definition run :: "env \<Rightarrow> event list \<times> int" where
  "run e =
     (case loader e of
        (tr, Completed) \<Rightarrow> (case main e of (tr', r) \<Rightarrow> (tr @ tr', status r))
      | (tr, r) \<Rightarrow> (tr, status r))"

fun printed :: "event list \<Rightarrow> pydict list" where
  "printed [] = []"
| "printed (Printed d # tr) = d # printed tr"
| "printed (ev # tr) = printed tr"

section \<open>A sample environment\<close>

text \<open>
  An environment in which everything is in place: the model path is set and exists, loading
  succeeds, the tokenizer makes one token of each code point, the model appends
  \<open>continuation\<close> to its input, standard input holds \<open>input\<close> and the JSON library
  answers \<open>parsed\<close>.
\<close>

definition sample_env :: "pystr \<Rightarrow> pystr \<Rightarrow> exn + json \<Rightarrow> env" where
  "sample_env continuation input parsed =
     \<lparr> getenv_MODEL_PATH = Some (ustr ''/models/krishna''),
       path_exists = (\<lambda>p. True),
       cuda_is_available = False,
       tokenizer_from_pretrained = (\<lambda>p. None),
       model_from_pretrained = (\<lambda>p t d. None),
       model_eval = None,
       tokenize = (\<lambda>p d. Inr p),
       model_generate = (\<lambda>ids. Inr (ids @ continuation)),
       tokenizer_decode = (\<lambda>ids. Inr ids),
       stdin_read = Inr input,
       json_loads = (\<lambda>s. parsed),
       interp_message = (\<lambda>v. ustr ''unsupported operand''),
       py_str = (\<lambda>v. ustr ''<value>''),
       empty_cache = None \<rparr>"

text \<open>
  Two replies a model may give: one of 51 words and 254 characters, and one sentence of 41
  words and 265 characters.
\<close>

definition long_reply :: pystr where
  "long_reply = ustr ''call call call call call call call call call call call call call call call call call call call call call call call call call call call call call call call call call call call call call call call call call call call call call call call call call call call''"

definition wordy_reply :: pystr where
  "wordy_reply = ustr ''Please reassure the customer that their savings account remains fully secure, verify the registered mobile number and the date of birth, and then explain politely that the replacement debit card will be dispatched to the registered address within seven working days''"

text \<open>
  A continuation in which the model repeats the label in the middle of a line before its
  reply of 51 words, and the request \<^verbatim>\<open>{"message": "hello"}\<close> with the value it parses to.
\<close>

definition echo_reply :: pystr where
  "echo_reply = ustr '' x Assistant: '' @ long_reply"

definition DQUOTE :: codepoint where
  "DQUOTE = 34"

definition hello_request :: pystr where
  "hello_request = ustr ''{'' @ DQUOTE # ustr ''message'' @ DQUOTE # ustr '': ''
     @ DQUOTE # ustr ''hello'' @ DQUOTE # ustr ''}''"

definition hello_parsed :: json where
  "hello_parsed = JObj [(ustr ''message'', JStr (ustr ''hello''))]"

section \<open>The extraction as the specification words it\<close>

text \<open>
  This definition follows the specification, not the source: split the decoded text on the
  label \<^verbatim>\<open>Assistant:\<close>, keep what follows its last occurrence, take the first line of
  that remainder, trim it.
\<close>

definition first_line :: "pystr \<Rightarrow> pystr" where
  "first_line s = takeWhile (\<lambda>c. c \<noteq> NL) s"

definition spec_candidate :: "pystr \<Rightarrow> pystr" where
  "spec_candidate decoded =
     strip (first_line (last (split_sep decoded (ustr ''Assistant:''))))"

text \<open>\<^verbatim>\<open>d["response"]\<close> for a dictionary that holds a string there.\<close>

definition response_of :: "pydict \<Rightarrow> pystr" where
  "response_of d = (case map_of d (ustr ''response'') of Some (PStr r) \<Rightarrow> r | _ \<Rightarrow> [])"

text \<open>Whether a value is a JSON object (a Python \<^verbatim>\<open>dict\<close>).\<close>

fun is_object :: "json \<Rightarrow> bool" where
  "is_object (JObj items) = True"
| "is_object v = False"

text \<open>
  What a caller of the process observes: the objects printed on standard output and the
  exit status.
\<close>

definition outcome :: "env \<Rightarrow> pydict list \<times> int" where
  "outcome e = (printed (fst (run e)), snd (run e))"

text \<open>Whether an exception is a \<^verbatim>\<open>json.JSONDecodeError\<close>, the class of the first handler.\<close>

fun is_json_decode_error :: "exn \<Rightarrow> bool" where
  "is_json_decode_error (JSONDecodeError m) = True"
| "is_json_decode_error ex = False"

section \<open>Splitting\<close>

lemma split_from_not_Nil: "split_from sep cur s \<noteq> []"
  by (induction sep cur s rule: split_from.induct) auto

lemma split_from_no_occurrence:
  "\<not> sublist sep s \<Longrightarrow> split_from sep cur s = [rev cur @ s]"
proof (induction s arbitrary: cur)
  case Nil
  then show ?case by simp
next
  case (Cons x xs)
  have "\<not> prefix sep (x # xs)"
    using Cons.prems by auto
  moreover have "\<not> sublist sep xs"
    using Cons.prems by (auto simp: sublist_Cons_right)
  ultimately show ?case
    using Cons.IH [of "x # cur"] by simp
qed

text \<open>
  A separator whose first element does not occur again in it cannot overlap itself: an
  occurrence that starts before another one ends before it.
\<close>

lemma overlap_free:
  assumes "prefix (c # cs) (pre @ (c # cs) @ rest)" and "c \<notin> set cs"
  shows "pre = [] \<or> length (c # cs) \<le> length pre"
proof (rule ccontr)
  define sep where "sep = c # cs"
  assume a: "\<not> (pre = [] \<or> length (c # cs) \<le> length pre)"
  then have l: "0 < length pre" "length pre < length sep" by (auto simp: sep_def)
  from assms(1) obtain zs where z: "pre @ sep @ rest = sep @ zs"
    by (auto simp: prefix_def sep_def)
  have "(pre @ sep @ rest) ! length pre = c"
    by (simp add: nth_append sep_def)
  moreover have "(sep @ zs) ! length pre = sep ! length pre"
    using l by (simp add: nth_append)
  ultimately have "sep ! length pre = c" using z by simp
  then have "cs ! (length pre - 1) = c" using l by (cases "length pre") (auto simp: sep_def)
  moreover have "length pre - 1 < length cs" using l by (cases pre) (auto simp: sep_def)
  ultimately have "c \<in> set cs" using nth_mem by metis
  with assms(2) show False by simp
qed

lemma last_split_from:
  assumes "c \<notin> set cs"
  shows "last (split_from (c # cs) cur (pre @ (c # cs) @ rest))
           = last (split_from (c # cs) [] rest)"
proof (induction "length pre" arbitrary: pre cur rule: less_induct)
  case less
  define sep where "sep = c # cs"
  have sep_ne: "sep \<noteq> []" by (simp add: sep_def)
  show ?case
  proof (cases pre)
    case Nil
    have "split_from sep cur (sep @ rest) = rev cur # split_from sep [] rest"
      by (simp add: sep_def)
    then show ?thesis using Nil by (simp add: split_from_not_Nil sep_def)
  next
    case (Cons x pre')
    show ?thesis
    proof (cases "prefix sep (pre @ sep @ rest)")
      case True
      have "pre = [] \<or> length (c # cs) \<le> length pre"
        using True assms unfolding sep_def by (rule overlap_free)
      then have len: "length sep \<le> length pre"
        using Cons by (simp add: sep_def)
      then have d: "drop (length sep) (pre @ sep @ rest) = drop (length sep) pre @ sep @ rest"
        by simp
      have "length (drop (length sep) pre) < length pre" using Cons sep_ne by simp
      from less [OF this]
      have ih: "last (split_from sep [] (drop (length sep) pre @ sep @ rest))
                  = last (split_from sep [] rest)"
        by (simp add: sep_def)
      have "split_from sep cur (x # pre' @ sep @ rest)
              = rev cur # split_from sep [] (drop (length sep) (x # pre' @ sep @ rest))"
        using True Cons sep_ne by (subst split_from.simps) simp
      then have "split_from sep cur (pre @ sep @ rest)
                   = rev cur # split_from sep [] (drop (length sep) pre @ sep @ rest)"
        using d Cons by simp
      then show ?thesis using ih by (simp add: split_from_not_Nil sep_def)
    next
      case False
      then have "split_from sep cur (x # pre' @ sep @ rest)
                   = split_from sep (x # cur) (pre' @ sep @ rest)"
        using Cons by (subst split_from.simps) simp
      moreover have "length pre' < length pre" using Cons by simp
      ultimately show ?thesis using less [of pre' "x # cur"] Cons by (simp add: sep_def)
    qed
  qed
qed

lemma hd_split_from_single:
  "hd (split_from [n] cur s) = rev cur @ takeWhile (\<lambda>c. c \<noteq> n) s"
  by (induction s arbitrary: cur) auto

lemma LABEL_Cons: "LABEL = NL # ustr ''Assistant:'' \<and> NL \<notin> set (ustr ''Assistant:'')"
  by (simp add: LABEL_def NL_def ustr_def)

lemma no_LABEL_without_NL: "NL \<notin> set s \<Longrightarrow> \<not> sublist LABEL s"
  using set_mono_sublist [of LABEL s] by (auto simp: LABEL_def)

lemma candidate_hd: "candidate raw_output = strip (hd (response_lines raw_output))"
  by (cases "response_lines raw_output")
     (simp_all add: candidate_def response_lines_def split_sep_def split_from_not_Nil)

lemma candidate_first_line:
  "candidate raw_output = strip (first_line (strip (last (split_sep raw_output LABEL))))"
  by (simp add: candidate_hd response_lines_def split_sep_def hd_split_from_single first_line_def)

lemma last_split_LABEL:
  "\<not> sublist LABEL rest \<Longrightarrow> last (split_sep (pre @ LABEL @ rest) LABEL) = rest"
  using last_split_from [of NL "ustr ''Assistant:''" "[]" pre rest] LABEL_Cons
  by (simp add: split_sep_def split_from_no_occurrence)

lemmas evaluate_strings =
  NL_def ustr_def strip_def is_space_def split_sep_def split_ws_def endswith_def LABEL_def
  first_line_def

section \<open>The claims\<close>

text \<open>
  C10: the list obtained by splitting the extracted remainder on newlines is never empty,
  for any decoded string, and neither is the list obtained by splitting on the label; so
  taking its first element is always defined, and the candidate is never produced by the
  branch for an empty list.
\<close>

theorem response_lines_never_empty:
  "split_sep raw_output LABEL \<noteq> [] \<and> response_lines raw_output \<noteq> []
     \<and> candidate raw_output = strip (hd (response_lines raw_output))"
  by (simp add: candidate_hd) (simp add: response_lines_def split_sep_def split_from_not_Nil)

text \<open>
  C6, as stated, fails: the source splits on a newline followed by the label, and trims the
  remainder before it takes the first line. A label that is not at the start of a line does
  not split the text, and a remainder that begins with a line break still gives its first
  non-empty line.
\<close>

theorem extraction_differs_from_spec:
  "candidate (ustr ''Q'' @ [NL] @ ustr ''Assistant: a Assistant: b'') = ustr ''a Assistant: b''
   \<and> spec_candidate (ustr ''Q'' @ [NL] @ ustr ''Assistant: a Assistant: b'') = ustr ''b''
   \<and> candidate (ustr ''Q'' @ [NL] @ ustr ''Assistant:'' @ [NL] @ ustr ''Hello'') = ustr ''Hello''
   \<and> spec_candidate (ustr ''Q'' @ [NL] @ ustr ''Assistant:'' @ [NL] @ ustr ''Hello'') = []"
  by (simp add: candidate_def response_lines_def spec_candidate_def evaluate_strings)

text \<open>
  C6, amended: the candidate is what follows the last occurrence of a newline followed by
  \<^verbatim>\<open>Assistant:\<close> (the whole text when there is none), trimmed, cut at its first line break
  and trimmed again.
\<close>

theorem candidate_after_last_label:
  assumes "\<not> sublist LABEL rest"
  shows "candidate (pre @ LABEL @ rest) = strip (first_line (strip rest))
         \<and> candidate rest = strip (first_line (strip rest))"
proof -
  have "last (split_sep rest LABEL) = rest"
    using assms by (simp add: split_sep_def split_from_no_occurrence)
  then show ?thesis
    using assms by (simp add: candidate_first_line last_split_LABEL)
qed

theorem candidate_after_last_label_witness:
  "\<not> sublist LABEL (ustr '' a Assistant: b'')
   \<and> candidate (ustr ''Q'' @ LABEL @ ustr '' a Assistant: b'') = ustr ''a Assistant: b''"
proof -
  have h: "\<not> sublist LABEL (ustr '' a Assistant: b'')"
    by (rule no_LABEL_without_NL) (simp add: NL_def ustr_def)
  have "strip (first_line (strip (ustr '' a Assistant: b''))) = ustr ''a Assistant: b''"
    by (simp add: evaluate_strings)
  with candidate_after_last_label [OF h, of "ustr ''Q''"] h show ?thesis by simp
qed

section \<open>The runs of the process\<close>

lemma printed_append: "printed (a @ b) = printed a @ printed b"
  by (induction a rule: printed.induct) auto

lemma generate_response_shape: "\<exists>r b. generate_response e v = response_dict r b"
  by (auto simp: generate_response_def split: sum.splits exn.splits)

lemma loader_cases:
  "loader e = ([LoadTokenizer, LoadModel], Completed)
   \<or> (\<exists>tr m. loader e = (tr @ [Printed (error_dict m)], Exited 1)
         \<and> set tr \<subseteq> {LoadTokenizer, LoadModel})"
  by (auto simp: loader_def load_try_def split: option.splits)

lemma main_try_cases:
  "(\<exists>v. main_try e = ([GenerateResponse, Printed (generate_response e v)], Completed))
   \<or> (\<exists>m. main_try e = ([Printed (error_dict m)], Exited 1))
   \<or> (\<exists>ex. main_try e = ([], Raised ex))"
  by (auto simp: main_try_def Let_def split: sum.splits bool.splits)

lemma main_except_cases:
  "(\<exists>v. main_except (main_try e) = ([GenerateResponse, Printed (generate_response e v)], Completed))
   \<or> (\<exists>m. main_except (main_try e) = ([Printed (error_dict m)], Exited 1))"
proof -
  consider v where "main_try e = ([GenerateResponse, Printed (generate_response e v)], Completed)"
    | m where "main_try e = ([Printed (error_dict m)], Exited 1)"
    | ex where "main_try e = ([], Raised ex)"
    using main_try_cases by blast
  then show ?thesis
  proof cases
    case 1 then show ?thesis by auto
  next
    case 2 then show ?thesis by auto
  next
    case 3 then show ?thesis by (cases ex) auto
  qed
qed

lemma cleanup_eq:
  "cleanup e = ([DelModel, DelTokenizer] @ (if cuda_is_available e then [EmptyCache] else []),
                Completed)"
  by (simp add: cleanup_def cleanup_try_def split: option.splits)

lemma main_eq:
  "main e = (fst (main_except (main_try e)) @ fst (cleanup e), snd (main_except (main_try e)))"
  by (simp add: main_def cleanup_eq split: prod.splits)

lemma run_loaded:
  "loader e = ([LoadTokenizer, LoadModel], Completed) \<Longrightarrow>
   run e = ([LoadTokenizer, LoadModel] @ fst (main_except (main_try e)) @ fst (cleanup e),
            status (snd (main_except (main_try e))))"
  by (simp add: run_def main_eq)

lemma run_not_loaded:
  "loader e = (tr, Exited n) \<Longrightarrow> run e = (tr, n)"
  by (simp add: run_def)

lemma keys_differ:
  "keys (response_dict r b) = [ustr ''response'', ustr ''escalate'']"
  "keys (error_dict m) = [ustr ''error'']"
  "[ustr ''response'', ustr ''escalate''] \<noteq> [ustr ''error'']"
  by (simp_all add: keys_def response_dict_def error_dict_def ustr_def)

text \<open>
  Every run prints exactly one object, and its keys tell the exit status.
\<close>

lemma one_object_printed:
  "\<exists>d. printed (fst (run e)) = [d]
     \<and> (snd (run e) = 0 \<longleftrightarrow> keys d = [ustr ''response'', ustr ''escalate''])
     \<and> (snd (run e) = 1 \<longleftrightarrow> keys d = [ustr ''error''])"
proof -
  consider "loader e = ([LoadTokenizer, LoadModel], Completed)"
    | tr m where "loader e = (tr @ [Printed (error_dict m)], Exited 1)"
        "set tr \<subseteq> {LoadTokenizer, LoadModel}"
    using loader_cases by blast
  then show ?thesis
  proof cases
    case 1
    consider v where "main_except (main_try e)
        = ([GenerateResponse, Printed (generate_response e v)], Completed)"
      | m where "main_except (main_try e) = ([Printed (error_dict m)], Exited 1)"
      using main_except_cases by blast
    then show ?thesis
    proof cases
      case (1 v)
      obtain r b where "generate_response e v = response_dict r b"
        using generate_response_shape by blast
      then show ?thesis
        using 1 \<open>loader e = _\<close> by (simp add: run_loaded cleanup_eq keys_differ)
    next
      case (2 m)
      then show ?thesis
        using \<open>loader e = _\<close> by (simp add: run_loaded cleanup_eq keys_differ)
    qed
  next
    case 2
    have "printed tr = []"
      using 2(2) by (induction tr rule: printed.induct) auto
    then show ?thesis
      using 2(1) by (simp add: run_not_loaded printed_append keys_differ)
  qed
qed

lemma loader_Completed:
  "snd (loader e) = Completed \<Longrightarrow> loader e = ([LoadTokenizer, LoadModel], Completed)"
  using loader_cases [of e] by auto

lemma strip_all_space:
  assumes "\<forall>c\<in>set s. is_space c"
  shows "strip s = []"
  using assms by (auto simp: strip_def dest: set_dropWhileD)

lemma sample_env_loader: "loader (sample_env c i p) = ([LoadTokenizer, LoadModel], Completed)"
  by (simp add: loader_def load_try_def sample_env_def ustr_def)

text \<open>
  C7: when the model path is unset or empty, the process prints exactly the error object
  for the missing \<^verbatim>\<open>MODEL_PATH\<close> and exits with status 1, and nothing else happens: neither
  the tokenizer nor the model is loaded.
\<close>

theorem missing_model_path:
  assumes "getenv_MODEL_PATH e = None \<or> getenv_MODEL_PATH e = Some []"
  shows "run e = ([Printed [(ustr ''error'', PStr (ustr ''MODEL_PATH not found in .env file.''))]], 1)
         \<and> LoadTokenizer \<notin> set (fst (run e)) \<and> LoadModel \<notin> set (fst (run e))"
  using assms by (auto simp: run_def loader_def error_dict_def)

theorem missing_model_path_witness:
  "getenv_MODEL_PATH ((sample_env [] [] (Inr JNull))\<lparr>getenv_MODEL_PATH := None\<rparr>) = None
   \<and> run ((sample_env [] [] (Inr JNull))\<lparr>getenv_MODEL_PATH := None\<rparr>)
       = ([Printed [(ustr ''error'', PStr (ustr ''MODEL_PATH not found in .env file.''))]], 1)
   \<and> run ((sample_env [] [] (Inr JNull))\<lparr>getenv_MODEL_PATH := Some []\<rparr>)
       = ([Printed [(ustr ''error'', PStr (ustr ''MODEL_PATH not found in .env file.''))]], 1)"
  using missing_model_path [of "(sample_env [] [] (Inr JNull))\<lparr>getenv_MODEL_PATH := None\<rparr>"]
    missing_model_path [of "(sample_env [] [] (Inr JNull))\<lparr>getenv_MODEL_PATH := Some []\<rparr>"]
  by simp

text \<open>
  C9: once tokenizer and model are loaded, a standard input that consists of whitespace only
  (the empty input included) makes the process print the error object for missing input
  and exit with status 1; the responder is not called.
\<close>

theorem blank_input_rejected:
  assumes "snd (loader e) = Completed" and "stdin_read e = Inr s"
    and "\<forall>c\<in>set s. is_space c"
  shows "printed (fst (run e)) = [[(ustr ''error'', PStr (ustr ''No input data received.''))]]
         \<and> snd (run e) = 1 \<and> GenerateResponse \<notin> set (fst (run e))"
proof -
  have "main_try e = ([Printed (error_dict (ustr ''No input data received.''))], Exited 1)"
    using assms(2,3) by (simp add: main_try_def strip_all_space)
  then show ?thesis
    using loader_Completed [OF assms(1)]
    by (simp add: run_loaded cleanup_eq error_dict_def)
qed

theorem blank_input_rejected_witness:
  "snd (loader (sample_env [] (ustr ''  '' @ [NL]) (Inr JNull))) = Completed
   \<and> stdin_read (sample_env [] (ustr ''  '' @ [NL]) (Inr JNull)) = Inr (ustr ''  '' @ [NL])
   \<and> list_all is_space (ustr ''  '' @ [NL])
   \<and> printed (fst (run (sample_env [] (ustr ''  '' @ [NL]) (Inr JNull))))
       = [[(ustr ''error'', PStr (ustr ''No input data received.''))]]
   \<and> snd (run (sample_env [] (ustr ''  '' @ [NL]) (Inr JNull))) = 1"
proof -
  have a: "snd (loader (sample_env [] (ustr ''  '' @ [NL]) (Inr JNull))) = Completed"
    by (simp add: sample_env_loader)
  have b: "stdin_read (sample_env [] (ustr ''  '' @ [NL]) (Inr JNull)) = Inr (ustr ''  '' @ [NL])"
    by (simp add: sample_env_def)
  have c: "\<forall>c\<in>set (ustr ''  '' @ [NL]). is_space c"
    by (simp add: ustr_def NL_def is_space_def)
  from blank_input_rejected [OF a b c] a b c show ?thesis by (simp add: list_all_iff)
qed

text \<open>
  C8: once tokenizer and model are loaded, an input that parses to a JSON value that is not
  an object makes the process print a single error object, either the one for the missing
  \<^verbatim>\<open>message\<close> key or the one for a failed request, and exit with status 1; the responder
  is not called.
\<close>

theorem non_object_rejected:
  assumes "snd (loader e) = Completed" and "stdin_read e = Inr s" and "strip s \<noteq> []"
    and "json_loads e (strip s) = Inr data" and "\<not> is_object data"
  shows "\<exists>msg. printed (fst (run e)) = [[(ustr ''error'', PStr msg)]]
           \<and> (msg = ustr ''Input JSON does not contain 'message' key.''
                \<or> prefix (ustr ''Error processing request: '') msg)
           \<and> snd (run e) = 1 \<and> GenerateResponse \<notin> set (fst (run e))"
proof -
  have g: "\<exists>ex. get_message e data = Inl (TypeError ex)"
    using assms(5) by (cases data) (simp_all add: get_message_def)
  have "main_try e = ([Printed (error_dict (ustr ''Input JSON does not contain 'message' key.''))], Exited 1)
        \<or> (\<exists>m. main_try e = ([], Raised (TypeError m)))"
    using assms(2-5) g
    by (cases data) (auto simp: main_try_def contains_message_def split: sum.splits bool.splits)
  then have "main_except (main_try e)
               = ([Printed (error_dict (ustr ''Input JSON does not contain 'message' key.''))], Exited 1)
        \<or> (\<exists>m. main_except (main_try e)
               = ([Printed (error_dict (ustr ''Error processing request: '' @ m))], Exited 1))"
    by auto
  then show ?thesis
    using loader_Completed [OF assms(1)]
    by (auto simp: run_loaded cleanup_eq error_dict_def)
qed

theorem non_object_rejected_witness:
  "snd (loader (sample_env [] (ustr ''5'') (Inr (JInt 5)))) = Completed
   \<and> stdin_read (sample_env [] (ustr ''5'') (Inr (JInt 5))) = Inr (ustr ''5'')
   \<and> strip (ustr ''5'') \<noteq> []
   \<and> json_loads (sample_env [] (ustr ''5'') (Inr (JInt 5))) (strip (ustr ''5'')) = Inr (JInt 5)
   \<and> \<not> is_object (JInt 5)
   \<and> snd (run (sample_env [] (ustr ''5'') (Inr (JInt 5)))) = 1
   \<and> GenerateResponse \<notin> set (fst (run (sample_env [] (ustr ''5'') (Inr (JInt 5)))))"
proof -
  have a: "snd (loader (sample_env [] (ustr ''5'') (Inr (JInt 5)))) = Completed"
    by (simp add: sample_env_loader)
  have b: "stdin_read (sample_env [] (ustr ''5'') (Inr (JInt 5))) = Inr (ustr ''5'')"
    by (simp add: sample_env_def)
  have c: "strip (ustr ''5'') \<noteq> []"
    by (simp add: ustr_def strip_def is_space_def)
  have d: "json_loads (sample_env [] (ustr ''5'') (Inr (JInt 5))) (strip (ustr ''5'')) = Inr (JInt 5)"
    by (simp add: sample_env_def)
  have e: "\<not> is_object (JInt 5)" by simp
  from non_object_rejected [OF a b c d e] a b c d e show ?thesis by blast
qed

section \<open>The responder on its inputs\<close>

lemma long_reply_facts:
  "NL \<notin> set (32 # long_reply)"
  "strip (first_line (strip (32 # long_reply))) = long_reply"
  "length (split_ws long_reply) = 51"
  "length long_reply = 254"
  by (simp_all add: long_reply_def evaluate_strings)

lemma wordy_reply_facts:
  "NL \<notin> set (32 # wordy_reply)"
  "strip (first_line (strip (32 # wordy_reply))) = wordy_reply"
  "length (split_ws wordy_reply) = 41"
  "length wordy_reply = 265"
  "\<not> endswith wordy_reply (ustr ''.'')"
  by (simp_all add: wordy_reply_def evaluate_strings)

lemma generate_response_ok:
  "decoded_output e (prompt e m) = Inr raw \<Longrightarrow>
   generate_response e m = response_dict (terminate (shorten (candidate raw))) False"
  by (simp add: generate_response_def)

lemma generate_response_raised:
  "decoded_output e (prompt e m) = Inl ex \<Longrightarrow>
   generate_response e m = response_dict APOLOGY True"
  by (cases ex) (simp_all add: generate_response_def)

lemma endswith_period_append: "endswith (r @ ustr ''.'') (ustr ''.'')"
  by (simp add: endswith_def ustr_def)

lemma terminate_ellipsis: "terminate (r @ ustr ''...'') = r @ ustr ''...''"
  by (simp add: terminate_def endswith_def ustr_def)

lemma terminate_props:
  "terminate r \<noteq> []" "endswith (terminate r) (ustr ''.'')"
  "prefix r (terminate r)" "length (terminate r) \<le> length r + 1"
  by (auto simp: terminate_def endswith_period_append) (auto simp: endswith_def ustr_def)

lemma terminate_FALLBACK: "terminate FALLBACK = FALLBACK"
  by (simp add: terminate_def FALLBACK_def endswith_def ustr_def)

lemma prompt_LABEL:
  "prompt e m = (SYSTEM_PROMPT @ [NL] @ ustr ''Agent: '' @ format_message e m) @ LABEL"
  by (simp add: prompt_def LABEL_def)

lemma candidate_echo:
  "\<not> sublist LABEL rest \<Longrightarrow> candidate (pre @ LABEL @ rest) = strip (first_line (strip rest))"
  by (simp add: candidate_first_line last_split_LABEL)

lemma sample_env_decoded:
  "decoded_output (sample_env cont i p) q = Inr (q @ cont)"
  by (simp add: decoded_output_def sample_env_def)

lemma sample_env_candidate:
  "NL \<notin> set cont \<Longrightarrow>
   candidate (prompt (sample_env cont i p) m @ cont) = strip (first_line (strip cont))"
  using candidate_echo [OF no_LABEL_without_NL, of cont
      "SYSTEM_PROMPT @ [NL] @ ustr ''Agent: '' @ format_message (sample_env cont i p) m"]
  by (simp add: prompt_LABEL)

text \<open>
  C1, amended: the candidate is the text after the last newline followed by \<^verbatim>\<open>Assistant:\<close>,
  trimmed, cut at its first line break and trimmed again. On the path without exception, a
  non-empty candidate of more than 50 whitespace-separated words is replaced by its first
  200 characters followed by an ellipsis (which ends in a period, so nothing is appended);
  a candidate of 50 words or fewer is returned whole, whatever its length, with a period
  appended when it does not end in one.
\<close>

theorem long_candidates_cut_at_200:
  assumes "decoded_output e (prompt e m) = Inr raw"
  shows "(candidate raw \<noteq> [] \<and> length (split_ws (candidate raw)) > 50 \<longrightarrow>
            generate_response e m
              = response_dict (take 200 (candidate raw) @ ustr ''...'') False)
       \<and> (candidate raw \<noteq> [] \<and> length (split_ws (candidate raw)) \<le> 50 \<longrightarrow>
            generate_response e m
              = response_dict (if endswith (candidate raw) (ustr ''.'') then candidate raw
                               else candidate raw @ ustr ''.'') False)"
  using generate_response_ok [OF assms]
  by (simp add: shorten_def terminate_ellipsis) (simp add: terminate_def)

theorem long_candidates_cut_at_200_witness:
  "decoded_output (sample_env (32 # long_reply) [] (Inr JNull))
       (prompt (sample_env (32 # long_reply) [] (Inr JNull)) (JStr (ustr ''hi'')))
     = Inr (prompt (sample_env (32 # long_reply) [] (Inr JNull)) (JStr (ustr ''hi''))
              @ 32 # long_reply)
   \<and> length (split_ws long_reply) > 50
   \<and> generate_response (sample_env (32 # long_reply) [] (Inr JNull)) (JStr (ustr ''hi''))
       = response_dict (take 200 long_reply @ ustr ''...'') False
   \<and> length (split_ws wordy_reply) \<le> 50 \<and> length wordy_reply > 200
   \<and> generate_response (sample_env (32 # wordy_reply) [] (Inr JNull)) (JStr (ustr ''hi''))
       = response_dict (wordy_reply @ ustr ''.'') False"
proof -
  let ?e = "sample_env (32 # long_reply) [] (Inr JNull)"
  let ?f = "sample_env (32 # wordy_reply) [] (Inr JNull)"
  let ?m = "JStr (ustr ''hi'')"
  have a: "decoded_output ?e (prompt ?e ?m) = Inr (prompt ?e ?m @ 32 # long_reply)"
    by (rule sample_env_decoded)
  have b: "decoded_output ?f (prompt ?f ?m) = Inr (prompt ?f ?m @ 32 # wordy_reply)"
    by (rule sample_env_decoded)
  have c: "candidate (prompt ?e ?m @ 32 # long_reply) = long_reply"
    using sample_env_candidate [OF long_reply_facts(1)] by (simp add: long_reply_facts)
  have d: "candidate (prompt ?f ?m @ 32 # wordy_reply) = wordy_reply"
    using sample_env_candidate [OF wordy_reply_facts(1)] by (simp add: wordy_reply_facts)
  have ne: "long_reply \<noteq> []" "wordy_reply \<noteq> []"
    using long_reply_facts(4) wordy_reply_facts(4) by auto
  show ?thesis
    using long_candidates_cut_at_200 [OF a] long_candidates_cut_at_200 [OF b] a c d ne
    by (simp add: long_reply_facts wordy_reply_facts)
qed

text \<open>
  C3: when tokenization, generation or decoding raises an exception, a device out-of-memory
  error included, the responder returns the fixed apology with \<^verbatim>\<open>escalate\<close> true. The
  responder returns a dictionary for every environment and message: no exception leaves it.
\<close>

theorem model_failure_gives_apology:
  assumes "tokenize e (prompt e m) (if cuda_is_available e then Cuda else Cpu) = Inl ex
    \<or> (\<exists>inputs. tokenize e (prompt e m) (if cuda_is_available e then Cuda else Cpu) = Inr inputs
          \<and> (model_generate e inputs = Inl ex
              \<or> (\<exists>outputs. model_generate e inputs = Inr outputs
                    \<and> tokenizer_decode e outputs = Inl ex)))"
  shows "generate_response e m
           = [(ustr ''response'',
               PStr (ustr ''I'm sorry, Krishna encountered an error. Please try again.'')),
              (ustr ''escalate'', PBool True)]"
proof -
  have "decoded_output e (prompt e m) = Inl ex"
    using assms by (auto simp: decoded_output_def)
  then show ?thesis
    by (simp add: generate_response_raised response_dict_def APOLOGY_def)
qed

theorem model_failure_gives_apology_witness:
  "(\<exists>inputs. tokenize ((sample_env [] [] (Inr JNull))
         \<lparr>model_generate := \<lambda>ids. Inl (OutOfMemoryError (ustr ''CUDA out of memory''))\<rparr>)
       (prompt ((sample_env [] [] (Inr JNull))
         \<lparr>model_generate := \<lambda>ids. Inl (OutOfMemoryError (ustr ''CUDA out of memory''))\<rparr>)
         (JStr (ustr ''hello''))) Cpu = Inr inputs)
   \<and> generate_response ((sample_env [] [] (Inr JNull))
         \<lparr>model_generate := \<lambda>ids. Inl (OutOfMemoryError (ustr ''CUDA out of memory''))\<rparr>)
       (JStr (ustr ''hello''))
     = [(ustr ''response'',
         PStr (ustr ''I'm sorry, Krishna encountered an error. Please try again.'')),
        (ustr ''escalate'', PBool True)]"
proof -
  let ?e = "(sample_env [] [] (Inr JNull))
         \<lparr>model_generate := \<lambda>ids. Inl (OutOfMemoryError (ustr ''CUDA out of memory''))\<rparr>"
  let ?m = "JStr (ustr ''hello'')"
  have t: "tokenize ?e (prompt ?e ?m) (if cuda_is_available ?e then Cuda else Cpu)
             = Inr (prompt ?e ?m)"
    by (simp add: sample_env_def)
  have g: "model_generate ?e (prompt ?e ?m)
             = Inl (OutOfMemoryError (ustr ''CUDA out of memory''))"
    by simp
  have c: "cuda_is_available ?e = False" by (simp add: sample_env_def)
  from t g have h: "tokenize ?e (prompt ?e ?m) (if cuda_is_available ?e then Cuda else Cpu)
        = Inl (OutOfMemoryError (ustr ''CUDA out of memory''))
    \<or> (\<exists>inputs. tokenize ?e (prompt ?e ?m) (if cuda_is_available ?e then Cuda else Cpu)
            = Inr inputs
          \<and> (model_generate ?e inputs = Inl (OutOfMemoryError (ustr ''CUDA out of memory''))
              \<or> (\<exists>outputs. model_generate ?e inputs = Inr outputs
                    \<and> tokenizer_decode ?e outputs
                        = Inl (OutOfMemoryError (ustr ''CUDA out of memory'')))))"
    by blast
  from model_failure_gives_apology [OF h] t c show ?thesis by auto
qed

lemma response_of_dict: "response_of (response_dict r b) = r"
  by (simp add: response_of_def response_dict_def ustr_def)

lemma sample_env_response:
  "NL \<notin> set cont \<Longrightarrow>
   generate_response (sample_env cont i p) m
     = response_dict (terminate (shorten (strip (first_line (strip cont))))) False"
  using generate_response_ok [OF sample_env_decoded, of cont i p m]
  by (simp add: sample_env_candidate)

text \<open>
  C2, as stated, fails in its bound on the length: a reply of 50 words or fewer is not cut.
  The sentence of 41 words below is returned whole, with a period appended: 266 characters.
\<close>

theorem short_wordy_reply_exceeds_cap:
  "generate_response (sample_env (32 # wordy_reply) [] (Inr JNull)) (JStr (ustr ''hi''))
     = response_dict (wordy_reply @ ustr ''.'') False
   \<and> length (response_of
         (generate_response (sample_env (32 # wordy_reply) [] (Inr JNull)) (JStr (ustr ''hi''))))
     = 266"
proof -
  have "wordy_reply \<noteq> []" using wordy_reply_facts(4) by auto
  then have "terminate (shorten wordy_reply) = wordy_reply @ ustr ''.''"
    by (simp add: shorten_def terminate_def wordy_reply_facts)
  then have "generate_response (sample_env (32 # wordy_reply) [] (Inr JNull)) (JStr (ustr ''hi''))
     = response_dict (wordy_reply @ ustr ''.'') False"
    using sample_env_response [OF wordy_reply_facts(1)] by (simp add: wordy_reply_facts)
  then show ?thesis
    by (simp add: response_of_dict wordy_reply_facts ustr_def)
qed

text \<open>
  C2, amended: on the path without exception the returned dictionary has exactly the keys
  \<^verbatim>\<open>response\<close> and \<^verbatim>\<open>escalate\<close>; the response is not empty and ends with a period;
  \<^verbatim>\<open>escalate\<close> is false. The response has at most 203 characters when the candidate has
  more than 50 words; otherwise it is the fallback sentence, or the whole candidate with at
  most one period appended, of whatever length.
\<close>

theorem response_shape:
  assumes "decoded_output e (prompt e m) = Inr raw"
  shows "\<exists>r. generate_response e m = [(ustr ''response'', PStr r), (ustr ''escalate'', PBool False)]
           \<and> r \<noteq> [] \<and> endswith r (ustr ''.'')
           \<and> (length (split_ws (candidate raw)) > 50 \<longrightarrow> length r \<le> 203)
           \<and> (length (split_ws (candidate raw)) \<le> 50 \<longrightarrow>
                r = FALLBACK \<or> (prefix (candidate raw) r \<and> length r \<le> length (candidate raw) + 1))"
proof -
  let ?r = "terminate (shorten (candidate raw))"
  have 1: "generate_response e m = [(ustr ''response'', PStr ?r), (ustr ''escalate'', PBool False)]"
    using generate_response_ok [OF assms] by (simp add: response_dict_def)
  have 2: "length (split_ws (candidate raw)) > 50 \<longrightarrow> length ?r \<le> 203"
  proof
    assume w: "length (split_ws (candidate raw)) > 50"
    then have "candidate raw \<noteq> []" by (auto simp: split_ws_def)
    with w have "?r = take 200 (candidate raw) @ ustr ''...''"
      by (simp add: shorten_def terminate_ellipsis)
    then show "length ?r \<le> 203" by (simp add: ustr_def)
  qed
  have 3: "length (split_ws (candidate raw)) \<le> 50 \<longrightarrow>
        ?r = FALLBACK \<or> (prefix (candidate raw) ?r \<and> length ?r \<le> length (candidate raw) + 1)"
    using terminate_props(3,4) [of "candidate raw"]
    by (auto simp: shorten_def terminate_FALLBACK)
  show ?thesis
    using 1 2 3 terminate_props(1,2) by blast
qed

theorem response_shape_witness:
  "length (split_ws long_reply) > 50 \<and> length (split_ws wordy_reply) \<le> 50
   \<and> (\<exists>r. generate_response (sample_env (32 # long_reply) [] (Inr JNull)) (JStr (ustr ''hi''))
            = [(ustr ''response'', PStr r), (ustr ''escalate'', PBool False)]
          \<and> r \<noteq> [] \<and> endswith r (ustr ''.'') \<and> length r \<le> 203)
   \<and> (\<exists>r. generate_response (sample_env (32 # wordy_reply) [] (Inr JNull)) (JStr (ustr ''hi''))
            = [(ustr ''response'', PStr r), (ustr ''escalate'', PBool False)]
          \<and> r \<noteq> [] \<and> endswith r (ustr ''.'')
          \<and> (r = FALLBACK \<or> (prefix wordy_reply r \<and> length r \<le> length wordy_reply + 1)))"
proof -
  let ?e = "sample_env (32 # long_reply) [] (Inr JNull)"
  let ?f = "sample_env (32 # wordy_reply) [] (Inr JNull)"
  let ?m = "JStr (ustr ''hi'')"
  have a: "decoded_output ?e (prompt ?e ?m) = Inr (prompt ?e ?m @ 32 # long_reply)"
    by (rule sample_env_decoded)
  have b: "decoded_output ?f (prompt ?f ?m) = Inr (prompt ?f ?m @ 32 # wordy_reply)"
    by (rule sample_env_decoded)
  have c: "candidate (prompt ?e ?m @ 32 # long_reply) = long_reply"
    using sample_env_candidate [OF long_reply_facts(1)] by (simp add: long_reply_facts)
  have d: "candidate (prompt ?f ?m @ 32 # wordy_reply) = wordy_reply"
    using sample_env_candidate [OF wordy_reply_facts(1)] by (simp add: wordy_reply_facts)
  have w: "length (split_ws long_reply) > 50" "length (split_ws wordy_reply) \<le> 50"
    by (simp_all add: long_reply_facts wordy_reply_facts)
  show ?thesis
    using response_shape [OF a] response_shape [OF b] w unfolding c d by auto
qed

section \<open>The cleanup\<close>

lemma format_message_cache [simp]:
  "format_message (e\<lparr>empty_cache := x\<rparr>) v = format_message e v"
  by (cases v) (simp_all add: format_message_def)

lemma prompt_cache [simp]: "prompt (e\<lparr>empty_cache := x\<rparr>) v = prompt e v"
  by (simp add: prompt_def)

lemma decoded_output_cache [simp]:
  "decoded_output (e\<lparr>empty_cache := x\<rparr>) p = decoded_output e p"
  by (auto simp: decoded_output_def split: sum.splits)

lemma generate_response_cache [simp]:
  "generate_response (e\<lparr>empty_cache := x\<rparr>) v = generate_response e v"
  by (simp add: generate_response_def)

lemma loader_cache [simp]: "loader (e\<lparr>empty_cache := x\<rparr>) = loader e"
  by (auto simp: loader_def load_try_def split: option.splits)

lemma contains_message_cache [simp]:
  "contains_message (e\<lparr>empty_cache := x\<rparr>) d = contains_message e d"
  by (cases d) (simp_all add: contains_message_def)

lemma get_message_cache [simp]:
  "get_message (e\<lparr>empty_cache := x\<rparr>) d = get_message e d"
  by (cases d) (simp_all add: get_message_def)

lemma main_try_cache [simp]: "main_try (e\<lparr>empty_cache := x\<rparr>) = main_try e"
  by (auto simp: main_try_def Let_def split: sum.splits bool.splits)

lemma main_cache [simp]: "main (e\<lparr>empty_cache := x\<rparr>) = main e"
  by (simp add: main_eq cleanup_eq)

lemma run_cache: "run (e\<lparr>empty_cache := x\<rparr>) = run e"
  by (simp add: run_def split: prod.splits ending.splits)

lemma loader_not_Completed:
  "snd (loader e) \<noteq> Completed \<Longrightarrow>
   \<exists>tr n. loader e = (tr, Exited n) \<and> set tr \<subseteq> {LoadTokenizer, LoadModel} \<union> range Printed"
  using loader_cases [of e] by auto

text \<open>
  C5, as stated, fails: the exits of the loader come before the \<^verbatim>\<open>try\<close> statement whose
  \<^verbatim>\<open>finally\<close> clause holds the cleanup. With the model path unset the process prints its
  error and exits with status 1, and no step of the cleanup runs.
\<close>

theorem no_cleanup_without_model_path:
  "run ((sample_env [] [] (Inr JNull))\<lparr>getenv_MODEL_PATH := None\<rparr>)
     = ([Printed (error_dict (ustr ''MODEL_PATH not found in .env file.''))], 1)
   \<and> count_list (fst (run ((sample_env [] [] (Inr JNull))\<lparr>getenv_MODEL_PATH := None\<rparr>))) DelModel
     = 0"
  by (simp add: run_def loader_def sample_env_def)

text \<open>
  C5, amended: in every run that reaches the entry point (tokenizer and model loaded) the
  cleanup runs exactly once, whatever the entry point printed: both names are dropped once,
  and the cache is cleared once when an accelerated device is available. A failure of the
  clearing changes nothing in what the process prints or in its exit status. In a run that
  the loader ends, no step of the cleanup runs.
\<close>

theorem cleanup_once_when_loaded:
  "run (e\<lparr>empty_cache := x\<rparr>) = run e
   \<and> (snd (loader e) = Completed \<longrightarrow>
        count_list (fst (run e)) DelModel = 1 \<and> count_list (fst (run e)) DelTokenizer = 1
        \<and> count_list (fst (run e)) EmptyCache = (if cuda_is_available e then 1 else 0))
   \<and> (snd (loader e) \<noteq> Completed \<longrightarrow>
        DelModel \<notin> set (fst (run e)) \<and> DelTokenizer \<notin> set (fst (run e))
        \<and> EmptyCache \<notin> set (fst (run e)))"
proof -
  have a: "snd (loader e) = Completed \<longrightarrow>
        count_list (fst (run e)) DelModel = 1 \<and> count_list (fst (run e)) DelTokenizer = 1
        \<and> count_list (fst (run e)) EmptyCache = (if cuda_is_available e then 1 else 0)"
  proof
    assume "snd (loader e) = Completed"
    then have l: "loader e = ([LoadTokenizer, LoadModel], Completed)"
      by (rule loader_Completed)
    consider v where "main_except (main_try e)
        = ([GenerateResponse, Printed (generate_response e v)], Completed)"
      | m where "main_except (main_try e) = ([Printed (error_dict m)], Exited 1)"
      using main_except_cases by blast
    then show "count_list (fst (run e)) DelModel = 1 \<and> count_list (fst (run e)) DelTokenizer = 1
        \<and> count_list (fst (run e)) EmptyCache = (if cuda_is_available e then 1 else 0)"
      by cases (simp_all add: run_loaded [OF l] cleanup_eq)
  qed
  have b: "snd (loader e) \<noteq> Completed \<longrightarrow>
        DelModel \<notin> set (fst (run e)) \<and> DelTokenizer \<notin> set (fst (run e))
        \<and> EmptyCache \<notin> set (fst (run e))"
  proof
    assume "snd (loader e) \<noteq> Completed"
    then obtain tr n where "loader e = (tr, Exited n)"
      "set tr \<subseteq> {LoadTokenizer, LoadModel} \<union> range Printed"
      using loader_not_Completed by blast
    then show "DelModel \<notin> set (fst (run e)) \<and> DelTokenizer \<notin> set (fst (run e))
        \<and> EmptyCache \<notin> set (fst (run e))"
      by (auto simp: run_not_loaded)
  qed
  show ?thesis using a b run_cache by blast
qed

theorem cleanup_once_when_loaded_witness:
  "snd (loader (sample_env [] [] (Inr JNull))) = Completed
   \<and> count_list (fst (run (sample_env [] [] (Inr JNull)))) DelModel = 1
   \<and> count_list (fst (run (sample_env [] [] (Inr JNull)))) DelTokenizer = 1
   \<and> snd (loader ((sample_env [] [] (Inr JNull))\<lparr>getenv_MODEL_PATH := None\<rparr>)) \<noteq> Completed
   \<and> DelModel \<notin> set (fst (run ((sample_env [] [] (Inr JNull))\<lparr>getenv_MODEL_PATH := None\<rparr>)))"
proof -
  have a: "snd (loader (sample_env [] [] (Inr JNull))) = Completed"
    by (simp add: sample_env_loader)
  have b: "snd (loader ((sample_env [] [] (Inr JNull))\<lparr>getenv_MODEL_PATH := None\<rparr>)) \<noteq> Completed"
    by (simp add: loader_def)
  show ?thesis
    using cleanup_once_when_loaded [where e = "sample_env [] [] (Inr JNull)"]
      cleanup_once_when_loaded
        [where e = "(sample_env [] [] (Inr JNull))\<lparr>getenv_MODEL_PATH := None\<rparr>"]
      a b by simp
qed

section \<open>The exit status\<close>

lemma printed_cleanup: "printed (fst (cleanup e)) = []"
  by (simp add: cleanup_eq)

lemma outcome_loaded:
  "snd (loader e) = Completed \<Longrightarrow>
   outcome e = (printed (fst (main_except (main_try e))), status (snd (main_except (main_try e))))"
  using run_loaded [OF loader_Completed, of e]
  by (simp add: outcome_def printed_append printed_cleanup)

lemma outcome_no_path:
  "getenv_MODEL_PATH e = None \<or> getenv_MODEL_PATH e = Some [] \<Longrightarrow>
   outcome e = ([error_dict (ustr ''MODEL_PATH not found in .env file.'')], 1)"
  by (auto simp: outcome_def run_def loader_def)

lemma outcome_path_missing:
  "getenv_MODEL_PATH e = Some p \<Longrightarrow> p \<noteq> [] \<Longrightarrow> \<not> path_exists e p \<Longrightarrow>
   outcome e = ([error_dict (ustr ''Model path does not exist: '' @ p
        @ ustr ''. Please verify the path and ensure the model files are present.'')], 1)"
  by (simp add: outcome_def run_def loader_def)

lemma printed_load_try: "printed (fst (load_try e p)) = []"
  by (simp add: load_try_def split: option.splits)

lemma outcome_load_failure:
  assumes "getenv_MODEL_PATH e = Some p" "p \<noteq> []" "path_exists e p"
    and "snd (load_try e p) = Raised lx"
  shows "outcome e = ([error_dict (ustr ''Failed to load model: '' @ str_exn lx)], 1)"
proof -
  obtain tr where t: "load_try e p = (tr, Raised lx)"
    using assms(4) by (cases "load_try e p") auto
  then have "printed tr = []" using printed_load_try [of e p] by simp
  then show ?thesis
    using assms(1-3) t by (simp add: outcome_def run_def loader_def printed_append)
qed

lemma outcome_blank:
  "snd (loader e) = Completed \<Longrightarrow> stdin_read e = Inr s \<Longrightarrow> strip s = [] \<Longrightarrow>
   outcome e = ([error_dict (ustr ''No input data received.'')], 1)"
  by (simp add: outcome_loaded main_try_def)

lemma outcome_invalid_json:
  "snd (loader e) = Completed \<Longrightarrow> stdin_read e = Inr s \<Longrightarrow> strip s \<noteq> [] \<Longrightarrow>
   json_loads e (strip s) = Inl (JSONDecodeError m) \<Longrightarrow>
   outcome e = ([error_dict (ustr ''Error parsing input JSON: '' @ m)], 1)"
  by (simp add: outcome_loaded main_try_def)

lemma outcome_missing_field:
  "snd (loader e) = Completed \<Longrightarrow> stdin_read e = Inr s \<Longrightarrow> strip s \<noteq> [] \<Longrightarrow>
   json_loads e (strip s) = Inr data \<Longrightarrow> contains_message e data = Inr False \<Longrightarrow>
   outcome e = ([error_dict (ustr ''Input JSON does not contain 'message' key.'')], 1)"
  by (simp add: outcome_loaded main_try_def)

lemma main_try_Raised:
  "snd (main_try e) = Raised ex \<Longrightarrow> main_try e = ([], Raised ex)"
  using main_try_cases [of e] by auto

lemma outcome_raised:
  "snd (loader e) = Completed \<Longrightarrow> snd (main_try e) = Raised ex \<Longrightarrow>
   \<not> is_json_decode_error ex \<Longrightarrow>
   outcome e = ([error_dict (ustr ''Error processing request: '' @ str_exn ex)], 1)"
  by (cases ex) (simp_all add: outcome_loaded main_try_Raised)

lemma outcome_response:
  "snd (loader e) = Completed \<Longrightarrow> stdin_read e = Inr s \<Longrightarrow> strip s \<noteq> [] \<Longrightarrow>
   json_loads e (strip s) = Inr data \<Longrightarrow> contains_message e data = Inr True \<Longrightarrow>
   get_message e data = Inr v \<Longrightarrow>
   outcome e = ([generate_response e v], 0)"
  by (simp add: outcome_loaded main_try_def)

text \<open>
  C4: every run prints exactly one object; the exit status is 0 exactly when that object has
  the keys \<^verbatim>\<open>response\<close> and \<^verbatim>\<open>escalate\<close>, and 1 exactly when it has the single key
  \<^verbatim>\<open>error\<close>. The error object with status 1 is what the process gives when the model path
  is unset or empty, when it does not exist, when loading raises, when the input is empty,
  when the input is not valid JSON, when the \<^verbatim>\<open>message\<close> field is missing, and when any
  other exception is raised in the entry point, each with its own message. When a message
  is obtained, the process prints what the responder returns and exits with status 0, also
  when the responder has caught an error of the model and returns the apology with
  \<^verbatim>\<open>escalate\<close> true.
\<close>

theorem exit_status_matches_output:
  "(\<exists>d. outcome e = ([d], snd (run e))
       \<and> (snd (run e) = 0 \<longleftrightarrow> keys d = [ustr ''response'', ustr ''escalate''])
       \<and> (snd (run e) = 1 \<longleftrightarrow> keys d = [ustr ''error'']))
   \<and> (getenv_MODEL_PATH e = None \<or> getenv_MODEL_PATH e = Some [] \<longrightarrow>
        outcome e = ([error_dict (ustr ''MODEL_PATH not found in .env file.'')], 1))
   \<and> (getenv_MODEL_PATH e = Some p \<and> p \<noteq> [] \<and> \<not> path_exists e p \<longrightarrow>
        outcome e = ([error_dict (ustr ''Model path does not exist: '' @ p
          @ ustr ''. Please verify the path and ensure the model files are present.'')], 1))
   \<and> (getenv_MODEL_PATH e = Some p \<and> p \<noteq> [] \<and> path_exists e p
        \<and> snd (load_try e p) = Raised lx \<longrightarrow>
        outcome e = ([error_dict (ustr ''Failed to load model: '' @ str_exn lx)], 1))
   \<and> (snd (loader e) = Completed \<and> stdin_read e = Inr s \<and> strip s = [] \<longrightarrow>
        outcome e = ([error_dict (ustr ''No input data received.'')], 1))
   \<and> (snd (loader e) = Completed \<and> stdin_read e = Inr s \<and> strip s \<noteq> []
        \<and> json_loads e (strip s) = Inl (JSONDecodeError m) \<longrightarrow>
        outcome e = ([error_dict (ustr ''Error parsing input JSON: '' @ m)], 1))
   \<and> (snd (loader e) = Completed \<and> stdin_read e = Inr s \<and> strip s \<noteq> []
        \<and> json_loads e (strip s) = Inr data \<and> contains_message e data = Inr False \<longrightarrow>
        outcome e = ([error_dict (ustr ''Input JSON does not contain 'message' key.'')], 1))
   \<and> (snd (loader e) = Completed \<and> snd (main_try e) = Raised ex
        \<and> \<not> is_json_decode_error ex \<longrightarrow>
        outcome e = ([error_dict (ustr ''Error processing request: '' @ str_exn ex)], 1))
   \<and> (snd (loader e) = Completed \<and> stdin_read e = Inr s \<and> strip s \<noteq> []
        \<and> json_loads e (strip s) = Inr data \<and> contains_message e data = Inr True
        \<and> get_message e data = Inr v \<longrightarrow>
        outcome e = ([generate_response e v], 0)
        \<and> (decoded_output e (prompt e v) = Inl gx \<longrightarrow>
             outcome e = ([response_dict APOLOGY True], 0)))"
proof -
  have one: "\<exists>d. outcome e = ([d], snd (run e))
       \<and> (snd (run e) = 0 \<longleftrightarrow> keys d = [ustr ''response'', ustr ''escalate''])
       \<and> (snd (run e) = 1 \<longleftrightarrow> keys d = [ustr ''error''])"
    using one_object_printed [of e] by (simp add: outcome_def)
  show ?thesis
    using one outcome_no_path [of e] outcome_path_missing [of e p]
      outcome_load_failure [of e p lx] outcome_blank [of e s]
      outcome_invalid_json [of e s m] outcome_missing_field [of e s data]
      outcome_raised [of e ex] outcome_response [of e s data v]
      generate_response_raised [of e v gx]
    by (intro conjI impI) (simp_all only: , auto)
qed


theorem exit_status_matches_output_witness:
  "outcome ((sample_env [] [] (Inr JNull))\<lparr>getenv_MODEL_PATH := None\<rparr>)
     = ([error_dict (ustr ''MODEL_PATH not found in .env file.'')], 1)
   \<and> outcome ((sample_env [] [] (Inr JNull))\<lparr>path_exists := \<lambda>p. False\<rparr>)
     = ([error_dict (ustr ''Model path does not exist: /models/krishna. Please verify the path and ensure the model files are present.'')], 1)
   \<and> outcome ((sample_env [] [] (Inr JNull))
         \<lparr>model_from_pretrained := \<lambda>p t d. Some (OtherException (ustr ''bad weights''))\<rparr>)
     = ([error_dict (ustr ''Failed to load model: bad weights'')], 1)
   \<and> outcome (sample_env [] [] (Inr JNull))
     = ([error_dict (ustr ''No input data received.'')], 1)
   \<and> outcome (sample_env [] (ustr ''not json'')
         (Inl (JSONDecodeError (ustr ''Expecting value: line 1 column 1 (char 0)''))))
     = ([error_dict (ustr ''Error parsing input JSON: Expecting value: line 1 column 1 (char 0)'')], 1)
   \<and> outcome (sample_env [] (ustr ''{}'') (Inr (JObj [])))
     = ([error_dict (ustr ''Input JSON does not contain 'message' key.'')], 1)
   \<and> outcome (sample_env [] (ustr ''5'') (Inr (JInt 5)))
     = ([error_dict (ustr ''Error processing request: unsupported operand'')], 1)
   \<and> outcome (sample_env (ustr '' Hello.'') hello_request (Inr hello_parsed))
     = ([response_dict (ustr ''Hello.'') False], 0)
   \<and> outcome ((sample_env (ustr '' Hello.'') hello_request (Inr hello_parsed))
         \<lparr>model_generate := \<lambda>ids. Inl (OutOfMemoryError (ustr ''CUDA out of memory''))\<rparr>)
     = ([response_dict APOLOGY True], 0)"
proof -
  let ?E0 = "sample_env [] [] (Inr JNull)"
  let ?P = "ustr ''/models/krishna''"
  let ?OK = "sample_env (ustr '' Hello.'') hello_request (Inr hello_parsed)"
  let ?OOM = "?OK\<lparr>model_generate := \<lambda>ids. Inl (OutOfMemoryError (ustr ''CUDA out of memory''))\<rparr>"
  let ?V = "JStr (ustr ''hello'')"
  have 1: "outcome (?E0\<lparr>getenv_MODEL_PATH := None\<rparr>)
     = ([error_dict (ustr ''MODEL_PATH not found in .env file.'')], 1)"
    by (rule exit_status_matches_output [where e = "?E0\<lparr>getenv_MODEL_PATH := None\<rparr>",
          THEN conjunct2, THEN conjunct1, THEN mp]) simp
  have 2: "outcome (?E0\<lparr>path_exists := \<lambda>p. False\<rparr>)
     = ([error_dict (ustr ''Model path does not exist: /models/krishna. Please verify the path and ensure the model files are present.'')], 1)"
    using exit_status_matches_output [where e = "?E0\<lparr>path_exists := \<lambda>p. False\<rparr>" and p = ?P,
          THEN conjunct2, THEN conjunct2, THEN conjunct1]
    by (simp add: sample_env_def ustr_def)
  have 3: "outcome (?E0\<lparr>model_from_pretrained := \<lambda>p t d. Some (OtherException (ustr ''bad weights''))\<rparr>)
     = ([error_dict (ustr ''Failed to load model: bad weights'')], 1)"
    using exit_status_matches_output
      [where e = "?E0\<lparr>model_from_pretrained := \<lambda>p t d. Some (OtherException (ustr ''bad weights''))\<rparr>"
         and p = ?P and lx = "OtherException (ustr ''bad weights'')",
       THEN conjunct2, THEN conjunct2, THEN conjunct2, THEN conjunct1]
    by (simp add: sample_env_def load_try_def ustr_def)
  have 4: "outcome ?E0 = ([error_dict (ustr ''No input data received.'')], 1)"
    using exit_status_matches_output [where e = ?E0 and s = "[]",
       THEN conjunct2, THEN conjunct2, THEN conjunct2, THEN conjunct2, THEN conjunct1]
    by (simp add: sample_env_loader) (simp add: sample_env_def strip_def)
  have 5: "outcome (sample_env [] (ustr ''not json'')
         (Inl (JSONDecodeError (ustr ''Expecting value: line 1 column 1 (char 0)''))))
     = ([error_dict (ustr ''Error parsing input JSON: Expecting value: line 1 column 1 (char 0)'')], 1)"
    using exit_status_matches_output [where e = "sample_env [] (ustr ''not json'')
         (Inl (JSONDecodeError (ustr ''Expecting value: line 1 column 1 (char 0)'')))"
       and s = "ustr ''not json''" and m = "ustr ''Expecting value: line 1 column 1 (char 0)''",
       THEN conjunct2, THEN conjunct2, THEN conjunct2, THEN conjunct2, THEN conjunct2,
       THEN conjunct1]
    by (simp add: sample_env_loader) (simp add: sample_env_def strip_def is_space_def ustr_def)
  have 6: "outcome (sample_env [] (ustr ''{}'') (Inr (JObj [])))
     = ([error_dict (ustr ''Input JSON does not contain 'message' key.'')], 1)"
    using exit_status_matches_output [where e = "sample_env [] (ustr ''{}'') (Inr (JObj []))"
       and s = "ustr ''{}''" and data = "JObj []",
       THEN conjunct2, THEN conjunct2, THEN conjunct2, THEN conjunct2, THEN conjunct2,
       THEN conjunct2, THEN conjunct1]
    by (simp add: sample_env_loader)
       (simp add: sample_env_def strip_def is_space_def ustr_def contains_message_def)
  have 7: "outcome (sample_env [] (ustr ''5'') (Inr (JInt 5)))
     = ([error_dict (ustr ''Error processing request: unsupported operand'')], 1)"
    using exit_status_matches_output [where e = "sample_env [] (ustr ''5'') (Inr (JInt 5))"
       and ex = "TypeError (ustr ''unsupported operand'')",
       THEN conjunct2, THEN conjunct2, THEN conjunct2, THEN conjunct2, THEN conjunct2,
       THEN conjunct2, THEN conjunct2, THEN conjunct1]
    by (simp add: sample_env_loader)
       (simp add: sample_env_def main_try_def strip_def is_space_def ustr_def contains_message_def)
  have l: "snd (loader ?OK) = Completed" "snd (loader ?OOM) = Completed"
    by (simp_all add: sample_env_loader) (simp add: loader_def load_try_def sample_env_def ustr_def)
  have s: "strip hello_request \<noteq> []" "strip hello_request = hello_request"
    by (simp_all add: hello_request_def DQUOTE_def strip_def is_space_def ustr_def)
  have c: "contains_message ?OK hello_parsed = Inr True" "get_message ?OK hello_parsed = Inr ?V"
    "contains_message ?OOM hello_parsed = Inr True" "get_message ?OOM hello_parsed = Inr ?V"
    by (simp_all add: contains_message_def get_message_def hello_parsed_def ustr_def)
  have g: "generate_response ?OK ?V = response_dict (ustr ''Hello.'') False"
    using sample_env_response [of "ustr '' Hello.''" hello_request "Inr hello_parsed" ?V]
    by (simp add: evaluate_strings shorten_def terminate_def)
  have d: "decoded_output ?OOM (prompt ?OOM ?V) = Inl (OutOfMemoryError (ustr ''CUDA out of memory''))"
    by (simp add: decoded_output_def sample_env_def)
  have io: "stdin_read ?OOM = Inr hello_request"
    "json_loads ?OOM (strip hello_request) = Inr hello_parsed"
    by (simp_all add: sample_env_def)
  have 8: "outcome ?OK = ([response_dict (ustr ''Hello.'') False], 0)"
    using exit_status_matches_output [where e = ?OK and s = hello_request and data = hello_parsed
       and v = ?V,
       THEN conjunct2, THEN conjunct2, THEN conjunct2, THEN conjunct2, THEN conjunct2,
       THEN conjunct2, THEN conjunct2, THEN conjunct2] l s c g
    by (simp add: sample_env_def)
  have 9: "outcome ?OOM = ([response_dict APOLOGY True], 0)"
    using exit_status_matches_output [where e = ?OOM and s = hello_request and data = hello_parsed
       and v = ?V and gx = "OutOfMemoryError (ustr ''CUDA out of memory'')",
       THEN conjunct2, THEN conjunct2, THEN conjunct2, THEN conjunct2, THEN conjunct2,
       THEN conjunct2, THEN conjunct2, THEN conjunct2] l s(1) c d io
    by blast
  show ?thesis using 1 2 3 4 5 6 7 8 9 by blast
qed

section \<open>A label inside the reply\<close>

lemma last_split_word_label:
  assumes "65 \<notin> set rest"
  shows "last (split_sep (pre @ ustr ''Assistant:'' @ rest) (ustr ''Assistant:'')) = rest"
proof -
  have w: "ustr ''Assistant:'' = 65 # ustr ''ssistant:''" "65 \<notin> set (ustr ''ssistant:'')"
    by (simp_all add: ustr_def)
  have "\<not> sublist (ustr ''Assistant:'') rest"
    using assms set_mono_sublist [of "ustr ''Assistant:''" rest] by (auto simp: w(1))
  then show ?thesis
    using last_split_from [OF w(2), of "[]" pre rest]
    by (simp add: split_sep_def split_from_no_occurrence w(1))
qed

lemma echo_reply_facts:
  "NL \<notin> set echo_reply"
  "65 \<notin> set (32 # long_reply)"
  "strip (first_line (32 # long_reply)) = long_reply"
  "strip (first_line (strip echo_reply)) = ustr ''x Assistant: '' @ long_reply"
  "length (split_ws (ustr ''x Assistant: '' @ long_reply)) = 53"
  "take 200 (ustr ''x Assistant: '' @ long_reply) \<noteq> take 200 long_reply"
  by (simp_all add: echo_reply_def long_reply_def evaluate_strings)

text \<open>
  C1, as stated, fails in what it takes the candidate to be: the candidate is not the first
  line after the last \<^verbatim>\<open>Assistant:\<close> label. When the model repeats the label in the
  middle of a line and then gives 51 words, the text after the last label has 51 words, but
  the reply is not its first 200 characters with an ellipsis: the cut is made in the
  candidate of the source, which still holds the repeated label.
\<close>

theorem label_inside_reply_changes_candidate:
  "decoded_output (sample_env echo_reply [] (Inr JNull))
       (prompt (sample_env echo_reply [] (Inr JNull)) (JStr (ustr ''hi'')))
     = Inr (prompt (sample_env echo_reply [] (Inr JNull)) (JStr (ustr ''hi'')) @ echo_reply)
   \<and> spec_candidate (prompt (sample_env echo_reply [] (Inr JNull)) (JStr (ustr ''hi'')) @ echo_reply)
     = long_reply
   \<and> long_reply \<noteq> [] \<and> length (split_ws long_reply) = 51
   \<and> generate_response (sample_env echo_reply [] (Inr JNull)) (JStr (ustr ''hi''))
     = response_dict (take 200 (ustr ''x Assistant: '' @ long_reply) @ ustr ''...'') False
   \<and> generate_response (sample_env echo_reply [] (Inr JNull)) (JStr (ustr ''hi''))
     \<noteq> response_dict (take 200 long_reply @ ustr ''...'') False"
proof -
  let ?e = "sample_env echo_reply [] (Inr JNull)"
  let ?m = "JStr (ustr ''hi'')"
  have a: "decoded_output ?e (prompt ?e ?m) = Inr (prompt ?e ?m @ echo_reply)"
    by (rule sample_env_decoded)
  have "prompt ?e ?m @ echo_reply
          = (prompt ?e ?m @ ustr '' x '') @ ustr ''Assistant:'' @ 32 # long_reply"
    by (simp add: echo_reply_def ustr_def)
  then have "last (split_sep (prompt ?e ?m @ echo_reply) (ustr ''Assistant:'')) = 32 # long_reply"
    using last_split_word_label [OF echo_reply_facts(2), of "prompt ?e ?m @ ustr '' x ''"]
    by simp
  then have b: "spec_candidate (prompt ?e ?m @ echo_reply) = long_reply"
    by (simp add: spec_candidate_def echo_reply_facts(3))
  have ne: "long_reply \<noteq> []" using long_reply_facts(4) by auto
  define cand where "cand = ustr ''x Assistant: '' @ long_reply"
  have f: "strip (first_line (strip echo_reply)) = cand" "length (split_ws cand) = 53"
    "take 200 cand \<noteq> take 200 long_reply"
    unfolding cand_def by (rule echo_reply_facts)+
  have "cand \<noteq> []" using ne by (simp add: cand_def)
  then have "shorten cand = take 200 cand @ ustr ''...''"
    by (simp add: shorten_def f(2))
  then have c': "generate_response ?e ?m = response_dict (take 200 cand @ ustr ''...'') False"
    using sample_env_response [OF echo_reply_facts(1), of "[]" "Inr JNull" ?m]
    by (simp add: f(1) terminate_ellipsis)
  then have c: "generate_response ?e ?m
     = response_dict (take 200 (ustr ''x Assistant: '' @ long_reply) @ ustr ''...'') False"
    by (simp only: cand_def)
  have d: "generate_response ?e ?m \<noteq> response_dict (take 200 long_reply @ ustr ''...'') False"
    using f(3) by (simp add: c' response_dict_def)
  show ?thesis using a b c d ne long_reply_facts(3) by blast
qed

end
